theory Spec2Isabelle
  imports Main
begin

section \<open>The workflow activator component (WorkflowActivator.vue)\<close>

text \<open>
  The component is a switch bound to two props and to a global store. Its two methods,
  \<open>activeChanged\<close> and \<open>displayActivationError\<close>, are asynchronous: they call helpers of
  the mixins, the REST client and the store. The embedding makes that explicit:
  \<^item> everything the component reads (props, its own \<open>loading\<close> flag, store getters,
    local storage) is a field of the record \<open>world\<close>;
  \<^item> every awaited helper is a parameter (record \<open>env\<close>): a function that takes the
    world at the call and returns its result together with the world at the moment the
    method resumes, since the store and the props may change while the method is suspended;
  \<^item> every call the method makes to the outside is appended to a trace of events, in
    program order, with its arguments (and, for an awaited call, its result);
  \<^item> a rejected promise is the value \<open>Rejected e\<close>. The two REST calls sit in a
    \<open>try\<close> block of the source, and their rejection is handled there. The helpers awaited
    outside a \<open>try\<close> block may reject as well: then \<open>activeChanged\<close> stops at that
    \<open>await\<close> and its own promise is rejected with the same value.
\<close>

subsection \<open>Values\<close>

datatype jsvalue =
    JUndefined
  | JBool bool
  | JString string
  | JNumber int
  | JArray "jsvalue list"
  | JObject "(string \<times> jsvalue) list"

text \<open>A settled promise.\<close>

datatype 'a settled = Fulfilled 'a | Rejected jsvalue

text \<open>\<open>IWorkflowDataUpdate\<close>: an object with optional fields, \<open>{}\<close> is the empty map.\<close>

type_synonym IWorkflowDataUpdate = "string \<rightharpoonup> jsvalue"

text \<open>\<open>INodeUi\<close>: only the optional \<open>disabled\<close> field is read here.\<close>

datatype INodeUi = INodeUi (node_name: string) (node_disabled: "bool option")

text \<open>The result of \<open>getActivationError\<close>, read as \<open>errorData.error.message\<close>.\<close>

datatype IActivationError = IActivationError (error_message: string)

text \<open>A workflow id, or \<open>undefined\<close>, as a JavaScript value.\<close>

definition js_id :: "string option \<Rightarrow> jsvalue" where
  "js_id i = (case i of None \<Rightarrow> JUndefined | Some s \<Rightarrow> JString s)"

text \<open>Truthiness of what \<open>localStorage.getItem\<close> returns (\<open>null\<close> or a string).\<close>

definition truthy :: "string option \<Rightarrow> bool" where
  "truthy v = (case v of None \<Rightarrow> False | Some s \<Rightarrow> s \<noteq> [])"

subsection \<open>What the component reads\<close>

record world =
  workflowActive :: bool
  workflowId :: "string option"
  loading :: bool
  getStateIsDirty :: bool
  getters_nodesIssuesExist :: bool
  getActiveWorkflows :: "string list"
  workflowTriggerNodes :: "INodeUi list"
  getters_workflowId :: "string option"
  state_workflow_id :: "string option"
  localStorage :: "string \<rightharpoonup> string"

subsection \<open>Computed properties (lines 63 to 100)\<close>

definition dirtyState :: "world \<Rightarrow> bool" where
  "dirtyState w = getStateIsDirty w"

definition nodesIssuesExist :: "world \<Rightarrow> bool" where
  "nodesIssuesExist w = getters_nodesIssuesExist w"

definition isWorkflowActive :: "world \<Rightarrow> bool" where
  "isWorkflowActive w =
     (let activeWorkflows = getActiveWorkflows w
      in case workflowId w of None \<Rightarrow> False | Some i \<Rightarrow> i \<in> set activeWorkflows)"

definition couldNotBeStarted :: "world \<Rightarrow> bool" where
  "couldNotBeStarted w =
     (workflowActive w = True \<and> isWorkflowActive w \<noteq> workflowActive w)"

definition getActiveColor :: "world \<Rightarrow> string" where
  "getActiveColor w = (if couldNotBeStarted w = True then ''#ff4949'' else ''#13ce66'')"

text \<open>
  \<open>this.workflowId && this.$store.state.workflow.id === this.workflowId\<close>: an undefined
  or empty id is falsy, and then the conjunction is.
\<close>

definition isCurrentWorkflow :: "world \<Rightarrow> bool" where
  "isCurrentWorkflow w =
     (case workflowId w of
        None \<Rightarrow> False
      | Some i \<Rightarrow> i \<noteq> [] \<and> state_workflow_id w = workflowId w)"

definition containsTrigger :: "world \<Rightarrow> bool" where
  "containsTrigger w =
     (let foundTriggers =
            filter (\<lambda>node. node_disabled node \<noteq> Some True) (workflowTriggerNodes w)
      in length foundTriggers > 0)"

definition disabled :: "world \<Rightarrow> bool" where
  "disabled w =
     (if isCurrentWorkflow w then \<not> workflowActive w \<and> \<not> containsTrigger w
      else False)"

subsection \<open>Collaborators and events\<close>

text \<open>
  The awaited helpers and the two constants imported from \<open>@/constants\<close>. Each helper
  returns a settled promise and the world it leaves.
\<close>

record env =
  saveCurrentWorkflow :: "world \<Rightarrow> bool settled \<times> world"
  confirmMessage ::
    "string \<Rightarrow> string \<Rightarrow> string \<Rightarrow> string \<Rightarrow> world \<Rightarrow> bool settled \<times> world"
  getWorkflowDataToSave :: "world \<Rightarrow> IWorkflowDataUpdate settled \<times> world"
  updateWorkflow ::
    "string option \<Rightarrow> IWorkflowDataUpdate \<Rightarrow> world \<Rightarrow> unit settled \<times> world"
  getActivationError :: "string option \<Rightarrow> world \<Rightarrow> IActivationError option settled \<times> world"
  WORKFLOW_ACTIVE_MODAL_KEY :: string
  LOCAL_STORAGE_ACTIVATION_FLAG :: string

text \<open>
  One event per call to the outside, and one per write of the \<open>loading\<close> flag.
  \<open>ShowMessage title message type duration\<close>, \<open>ShowError error title message\<close>,
  \<open>Commit mutation payload\<close>, \<open>Dispatch action payload\<close>; the hook, the telemetry record
  and the component event carry the workflow id and the new state.
\<close>

datatype event =
    SaveCurrentWorkflow
  | ShowMessage string string string "int option"
  | ConfirmMessage string string string string "bool settled"
  | GetWorkflowDataToSave "IWorkflowDataUpdate settled"
  | SetLoading bool
  | UpdateWorkflow "string option" IWorkflowDataUpdate "unit settled"
  | ShowError jsvalue string string
  | Commit string jsvalue
  | Dispatch string "string option"
  | ExternalHooksRun string "string option" bool
  | TelemetryTrack string "string option" bool
  | Emit string "string option" bool
  | GetActivationError "string option" "IActivationError option settled"

subsection \<open>activeChanged (lines 102 to 175)\<close>

text \<open>
  Lines 103 to 105: a workflow without an id is saved first. The value of the promise is
  discarded; a rejection ends the method.
\<close>

definition activeChanged_save :: "env \<Rightarrow> world \<Rightarrow> unit settled \<times> world \<times> event list" where
  "activeChanged_save c w =
     (if workflowId w = None then
        (let (saved, w') = saveCurrentWorkflow c w
         in case saved of
              Rejected error \<Rightarrow> (Rejected error, w', [SaveCurrentWorkflow])
            | Fulfilled _ \<Rightarrow> (Fulfilled (), w', [SaveCurrentWorkflow]))
      else (Fulfilled (), w, []))"

text \<open>
  Lines 117 to 134: the data to send. \<open>Fulfilled None\<close> is the \<open>return\<close> of line 128,
  taken when the user declines the prompt; \<open>Rejected e\<close> is a helper that rejected.
\<close>

definition activeChanged_data ::
  "env \<Rightarrow> bool \<Rightarrow> world \<Rightarrow> IWorkflowDataUpdate option settled \<times> world \<times> event list" where
  "activeChanged_data c newActiveState w =
     (let activeWorkflowId = getters_workflowId w
      in if newActiveState = True \<and> workflowId w = activeWorkflowId then
           (if dirtyState w then
              (let (importConfirm, w') =
                     confirmMessage c
                       ''When you activate the workflow all currently unsaved changes of the workflow will be saved.''
                       ''Activate and save?'' ''warning'' ''Yes, activate and save!'' w;
                   asked =
                     ConfirmMessage
                       ''When you activate the workflow all currently unsaved changes of the workflow will be saved.''
                       ''Activate and save?'' ''warning'' ''Yes, activate and save!'' importConfirm
               in case importConfirm of
                    Rejected error \<Rightarrow> (Rejected error, w', [asked])
                  | Fulfilled answer \<Rightarrow>
                      if answer = False then (Fulfilled None, w', [asked])
                      else (let (data, w'') = getWorkflowDataToSave c w'
                            in case data of
                                 Rejected error \<Rightarrow>
                                   (Rejected error, w'', [asked, GetWorkflowDataToSave data])
                               | Fulfilled d \<Rightarrow>
                                   (Fulfilled (Some d), w'', [asked, GetWorkflowDataToSave data])))
            else (let (data, w') = getWorkflowDataToSave c w
                  in case data of
                       Rejected error \<Rightarrow> (Rejected error, w', [GetWorkflowDataToSave data])
                     | Fulfilled d \<Rightarrow> (Fulfilled (Some d), w', [GetWorkflowDataToSave data])))
         else (Fulfilled (Some Map.empty), w, []))"

text \<open>Lines 149 to 174: what follows a successful update, all of it synchronous.\<close>

definition activeChanged_commit :: "env \<Rightarrow> bool \<Rightarrow> world \<Rightarrow> event list" where
  "activeChanged_commit c newActiveState w =
     (let currentWorkflowId = getters_workflowId w;
          current = (currentWorkflowId = workflowId w);
          activationEventName =
            (if current then ''workflow.activeChangeCurrent'' else ''workflow.activeChange'')
      in (if current then [Commit ''setActive'' (JBool newActiveState)] else [])
         @ (if newActiveState = True then
              Commit ''setWorkflowActive'' (js_id (workflowId w))
              # (if isCurrentWorkflow w
                     \<and> \<not> truthy (localStorage w (LOCAL_STORAGE_ACTIVATION_FLAG c))
                  then [Dispatch ''ui/openModal'' (Some (WORKFLOW_ACTIVE_MODAL_KEY c))]
                  else [])
            else [Commit ''setWorkflowInactive'' (js_id (workflowId w))])
         @ [ExternalHooksRun activationEventName (workflowId w) newActiveState,
            TelemetryTrack ''User set workflow active status'' (workflowId w) newActiveState,
            Emit ''workflowActiveChanged'' (workflowId w) newActiveState,
            SetLoading False,
            Dispatch ''settings/fetchPromptsData'' None])"

text \<open>Lines 136 to 175: the request, its failure handler, and the success path.\<close>

definition activeChanged_update ::
  "env \<Rightarrow> bool \<Rightarrow> IWorkflowDataUpdate \<Rightarrow> world \<Rightarrow> world \<times> event list" where
  "activeChanged_update c newActiveState data0 w0 =
     (let data = data0(''active'' \<mapsto> JBool newActiveState);
          w = w0\<lparr>loading := True\<rparr>;
          (r, w') = updateWorkflow c (workflowId w) data w;
          sent = [SetLoading True, UpdateWorkflow (workflowId w) data r]
      in case r of
           Rejected error \<Rightarrow>
             (let newStateName = (if newActiveState = True then ''activated'' else ''deactivated'')
              in (w'\<lparr>loading := False\<rparr>,
                  sent @ [ShowError error ''Problem''
                            (''There was a problem and the workflow could not be ''
                               @ newStateName @ '':''),
                          SetLoading False]))
         | Fulfilled _ \<Rightarrow>
             (w'\<lparr>loading := False\<rparr>, sent @ activeChanged_commit c newActiveState w'))"

text \<open>
  The whole method: its own promise, the world it leaves and its events. The promise is
  rejected only when a helper awaited outside the \<open>try\<close> block rejects.
\<close>

definition activeChanged :: "env \<Rightarrow> bool \<Rightarrow> world \<Rightarrow> unit settled \<times> world \<times> event list" where
  "activeChanged c newActiveState w0 =
     (let (saved, w1, t1) = activeChanged_save c w0
      in case saved of
           Rejected error \<Rightarrow> (Rejected error, w1, t1)
         | Fulfilled _ \<Rightarrow>
             if nodesIssuesExist w1 = True then
               (Fulfilled (), w1,
                t1 @ [ShowMessage ''Problem activating workflow''
                        ''It is only possible to activate a workflow when all issues on all nodes got resolved!''
                        ''error'' None])
             else
               (let (data, w2, t2) = activeChanged_data c newActiveState w1
                in case data of
                     Rejected error \<Rightarrow> (Rejected error, w2, t1 @ t2)
                   | Fulfilled None \<Rightarrow> (Fulfilled (), w2, t1 @ t2)
                   | Fulfilled (Some d) \<Rightarrow>
                       (let (w3, t3) = activeChanged_update c newActiveState d w2
                        in (Fulfilled (), w3, t1 @ t2 @ t3))))"

subsection \<open>displayActivationError (lines 176 to 196)\<close>

definition displayActivationError :: "env \<Rightarrow> world \<Rightarrow> unit settled \<times> world \<times> event list" where
  "displayActivationError c w =
     (let (r, w') = getActivationError c (workflowId w) w;
          errorMessage =
            (case r of
               Fulfilled errorData \<Rightarrow>
                 (case errorData of
                    None \<Rightarrow> ''Sorry there was a problem. No error got found to display.''
                  | Some d \<Rightarrow>
                      ''The following error occurred on workflow activation:<br /><i>''
                        @ error_message d @ ''</i>'')
             | Rejected error \<Rightarrow> ''Sorry there was a problem requesting the error'')
      in (Fulfilled (),
          w',
          [GetActivationError (workflowId w) r,
           ShowMessage ''Problem activating workflow'' errorMessage ''warning'' (Some 0)]))"

subsection \<open>Reading a trace\<close>

fun is_updateWorkflow :: "event \<Rightarrow> bool" where
  "is_updateWorkflow (UpdateWorkflow i d r) = True"
| "is_updateWorkflow e = False"

fun is_commit :: "event \<Rightarrow> bool" where
  "is_commit (Commit n v) = True"
| "is_commit e = False"

fun is_dispatch :: "event \<Rightarrow> bool" where
  "is_dispatch (Dispatch n v) = True"
| "is_dispatch e = False"

fun is_confirmMessage :: "event \<Rightarrow> bool" where
  "is_confirmMessage (ConfirmMessage m h t b r) = True"
| "is_confirmMessage e = False"

fun is_showMessage :: "event \<Rightarrow> bool" where
  "is_showMessage (ShowMessage t m k d) = True"
| "is_showMessage e = False"

text \<open>
  The position of an event in the method body, by the line that produces it: the save of
  line 104, the message of line 108, the prompt of line 126, the data of line 133, the
  flag of line 138, the request of line 141, the error of line 144, the commits of lines
  154 and 159/166, the dialog of line 163, the hook, the telemetry record and the
  component event of lines 169 to 172, the flag of lines 145/173, the dispatch of line 174.
\<close>

fun stage :: "event \<Rightarrow> nat" where
  "stage SaveCurrentWorkflow = 0"
| "stage (ShowMessage t m k d) = 1"
| "stage (ConfirmMessage m h t b r) = 2"
| "stage (GetWorkflowDataToSave d) = 3"
| "stage (SetLoading b) = (if b then 4 else 13)"
| "stage (UpdateWorkflow i d r) = 5"
| "stage (ShowError e t m) = 6"
| "stage (Commit n v) = (if n = ''setActive'' then 7 else 8)"
| "stage (Dispatch n v) = (if n = ''ui/openModal'' then 9 else 14)"
| "stage (ExternalHooksRun n i b) = 10"
| "stage (TelemetryTrack n i b) = 11"
| "stage (Emit n i b) = 12"
| "stage (GetActivationError i r) = 15"

fun is_openModal :: "event \<Rightarrow> bool" where
  "is_openModal (Dispatch n v) = (n = ''ui/openModal'')"
| "is_openModal e = False"

fun is_setLoading :: "event \<Rightarrow> bool" where
  "is_setLoading (SetLoading b) = True"
| "is_setLoading e = False"

text \<open>A prompt that the user declined.\<close>

fun declined :: "event \<Rightarrow> bool" where
  "declined (ConfirmMessage m h t b r) = (r = Fulfilled False)"
| "declined e = False"

subsection \<open>Example collaborators\<close>

text \<open>
  A save that gives the workflow the id 7 and clears the dirty flag, a user who accepts
  the prompt, a server that accepts the update and has no activation error recorded.
\<close>

definition saved_as_7 :: "world \<Rightarrow> world" where
  "saved_as_7 w =
     w\<lparr>workflowId := Some ''7'', getters_workflowId := Some ''7'',
       state_workflow_id := Some ''7'', getStateIsDirty := False\<rparr>"

definition accepting_env :: env where
  "accepting_env =
     \<lparr> saveCurrentWorkflow = (\<lambda>w. (Fulfilled True, saved_as_7 w)),
       confirmMessage = (\<lambda>m h t b w. (Fulfilled True, w)),
       getWorkflowDataToSave =
         (\<lambda>w. (Fulfilled [''name'' \<mapsto> JString ''My workflow''], w)),
       updateWorkflow = (\<lambda>i d w. (Fulfilled (), w)),
       getActivationError = (\<lambda>i w. (Fulfilled None, w)),
       WORKFLOW_ACTIVE_MODAL_KEY = ''activation'',
       LOCAL_STORAGE_ACTIVATION_FLAG = ''N8N_HIDE_ACTIVATION_ALERT'' \<rparr>"

text \<open>The same, with a user who declines the prompt.\<close>

definition declining_env :: env where
  "declining_env = accepting_env\<lparr>confirmMessage := (\<lambda>m h t b w. (Fulfilled False, w))\<rparr>"

text \<open>The same, with a server that rejects both REST calls.\<close>

definition failing_env :: env where
  "failing_env =
     accepting_env
       \<lparr>updateWorkflow := (\<lambda>i d w. (Rejected (JString ''Network Error''), w)),
        getActivationError := (\<lambda>i w. (Rejected (JString ''Network Error''), w))\<rparr>"

text \<open>The same, with a helper that fails to collect the workflow data.\<close>

definition no_snapshot_env :: env where
  "no_snapshot_env =
     accepting_env
       \<lparr>getWorkflowDataToSave := (\<lambda>w. (Rejected (JString ''TypeError''), w))\<rparr>"

subsection \<open>Example worlds\<close>

text \<open>Workflow 1 open in the editor with unsaved changes, one enabled trigger, no issues.\<close>

definition editor_world :: world where
  "editor_world =
     \<lparr> workflowActive = False, workflowId = Some ''1'', loading = False,
       getStateIsDirty = True, getters_nodesIssuesExist = False,
       getActiveWorkflows = [], workflowTriggerNodes = [INodeUi ''Cron'' None],
       getters_workflowId = Some ''1'', state_workflow_id = Some ''1'',
       localStorage = Map.empty \<rparr>"

text \<open>The same editor with an issue on a node.\<close>

definition issues_world :: world where
  "issues_world = editor_world\<lparr>getters_nodesIssuesExist := True\<rparr>"

text \<open>A new workflow that was never saved (no id yet), with an issue on a node.\<close>

definition unsaved_world :: world where
  "unsaved_world =
     \<lparr> workflowActive = False, workflowId = None, loading = False,
       getStateIsDirty = True, getters_nodesIssuesExist = True,
       getActiveWorkflows = [], workflowTriggerNodes = [INodeUi ''Cron'' None],
       getters_workflowId = Some ''__EMPTY__'', state_workflow_id = Some ''__EMPTY__'',
       localStorage = Map.empty \<rparr>"

text \<open>Workflow 2 shown in a list while workflow 1 is open in the editor; no trigger nodes.\<close>

definition listed_world :: world where
  "listed_world =
     \<lparr> workflowActive = False, workflowId = Some ''2'', loading = False,
       getStateIsDirty = False, getters_nodesIssuesExist = False,
       getActiveWorkflows = [], workflowTriggerNodes = [],
       getters_workflowId = Some ''1'', state_workflow_id = Some ''1'',
       localStorage = Map.empty \<rparr>"

section \<open>The shape of a run\<close>

text \<open>
  The facts below describe what each part of \<open>activeChanged\<close> returns, one case per
  path through the source, and which kinds of event each part can produce.
\<close>

lemma commit_filters:
  "filter is_updateWorkflow (activeChanged_commit c b w) = []"
  "filter is_confirmMessage (activeChanged_commit c b w) = []"
  "\<not> list_ex declined (activeChanged_commit c b w)"
  "SaveCurrentWorkflow \<notin> set (activeChanged_commit c b w)"
  "\<not> list_ex is_showMessage (activeChanged_commit c b w)"
  "UpdateWorkflow i d r \<notin> set (activeChanged_commit c b w)"
  "GetWorkflowDataToSave s \<notin> set (activeChanged_commit c b w)"
  by (simp_all add: activeChanged_commit_def Let_def)

lemma commit_openModal:
  "filter is_openModal (activeChanged_commit c b w) =
     (if b \<and> isCurrentWorkflow w \<and> \<not> truthy (localStorage w (LOCAL_STORAGE_ACTIVATION_FLAG c))
      then [Dispatch ''ui/openModal'' (Some (WORKFLOW_ACTIVE_MODAL_KEY c))] else [])"
  by (simp add: activeChanged_commit_def Let_def)

lemma isCurrentWorkflow_loading [simp]:
  "isCurrentWorkflow (w\<lparr>loading := b\<rparr>) = isCurrentWorkflow w"
  by (simp add: isCurrentWorkflow_def split: option.splits)

lemma update_cases:
  obtains
    (rejected) e w' where
      "updateWorkflow c (workflowId w) (d(''active'' \<mapsto> JBool b)) (w\<lparr>loading := True\<rparr>)
         = (Rejected e, w')"
      "activeChanged_update c b d w =
         (w'\<lparr>loading := False\<rparr>,
          [SetLoading True,
           UpdateWorkflow (workflowId w) (d(''active'' \<mapsto> JBool b)) (Rejected e),
           ShowError e ''Problem''
             (''There was a problem and the workflow could not be ''
                @ (if b then ''activated'' else ''deactivated'') @ '':''),
           SetLoading False])"
  | (fulfilled) u w' where
      "updateWorkflow c (workflowId w) (d(''active'' \<mapsto> JBool b)) (w\<lparr>loading := True\<rparr>)
         = (Fulfilled u, w')"
      "activeChanged_update c b d w =
         (w'\<lparr>loading := False\<rparr>,
          [SetLoading True,
           UpdateWorkflow (workflowId w) (d(''active'' \<mapsto> JBool b)) (Fulfilled u)]
          @ activeChanged_commit c b w')"
proof -
  obtain r w' where u:
    "updateWorkflow c (workflowId w) (d(''active'' \<mapsto> JBool b)) (w\<lparr>loading := True\<rparr>) = (r, w')"
    by (cases "updateWorkflow c (workflowId w) (d(''active'' \<mapsto> JBool b)) (w\<lparr>loading := True\<rparr>)")
  show thesis
  proof (cases r)
    case (Fulfilled x)
    with u show thesis by (intro fulfilled [of x w']) (simp_all add: activeChanged_update_def)
  next
    case (Rejected x)
    with u show thesis by (intro rejected [of x w']) (simp_all add: activeChanged_update_def)
  qed
qed

lemma save_shape:
  "(workflowId w \<noteq> None \<and> activeChanged_save c w = (Fulfilled (), w, []))
   \<or> (\<exists>b w'. workflowId w = None \<and> saveCurrentWorkflow c w = (Fulfilled b, w')
         \<and> activeChanged_save c w = (Fulfilled (), w', [SaveCurrentWorkflow]))
   \<or> (\<exists>e w'. workflowId w = None \<and> saveCurrentWorkflow c w = (Rejected e, w')
         \<and> activeChanged_save c w = (Rejected e, w', [SaveCurrentWorkflow]))"
  by (auto simp: activeChanged_save_def split: prod.splits settled.splits)

lemma save_cases:
  obtains
    (kept) "workflowId w \<noteq> None" "activeChanged_save c w = (Fulfilled (), w, [])"
  | (saved) b w' where "workflowId w = None" "saveCurrentWorkflow c w = (Fulfilled b, w')"
      "activeChanged_save c w = (Fulfilled (), w', [SaveCurrentWorkflow])"
  | (failed) e w' where "workflowId w = None" "saveCurrentWorkflow c w = (Rejected e, w')"
      "activeChanged_save c w = (Rejected e, w', [SaveCurrentWorkflow])"
  using save_shape [of w c] by blast

lemma data_shape:
  fixes c :: env and b :: bool and w :: world
  defines "ask \<equiv> confirmMessage c
      ''When you activate the workflow all currently unsaved changes of the workflow will be saved.''
      ''Activate and save?'' ''warning'' ''Yes, activate and save!''"
    and "asked \<equiv> ConfirmMessage
      ''When you activate the workflow all currently unsaved changes of the workflow will be saved.''
      ''Activate and save?'' ''warning'' ''Yes, activate and save!''"
  shows
  "(activeChanged_data c b w = (Fulfilled (Some Map.empty), w, [])
      \<and> \<not> (b \<and> workflowId w = getters_workflowId w))
   \<or> (\<exists>s w'. activeChanged_data c b w = (Fulfilled (Some s), w', [GetWorkflowDataToSave (Fulfilled s)])
         \<and> getWorkflowDataToSave c w = (Fulfilled s, w')
         \<and> b \<and> workflowId w = getters_workflowId w \<and> \<not> dirtyState w)
   \<or> (\<exists>e w'. activeChanged_data c b w = (Rejected e, w', [GetWorkflowDataToSave (Rejected e)])
         \<and> getWorkflowDataToSave c w = (Rejected e, w')
         \<and> b \<and> workflowId w = getters_workflowId w \<and> \<not> dirtyState w)
   \<or> (\<exists>s w' w''. activeChanged_data c b w =
          (Fulfilled (Some s), w'', [asked (Fulfilled True), GetWorkflowDataToSave (Fulfilled s)])
         \<and> ask w = (Fulfilled True, w')
         \<and> getWorkflowDataToSave c w' = (Fulfilled s, w'')
         \<and> b \<and> workflowId w = getters_workflowId w \<and> dirtyState w)
   \<or> (\<exists>e w' w''. activeChanged_data c b w =
          (Rejected e, w'', [asked (Fulfilled True), GetWorkflowDataToSave (Rejected e)])
         \<and> ask w = (Fulfilled True, w')
         \<and> getWorkflowDataToSave c w' = (Rejected e, w'')
         \<and> b \<and> workflowId w = getters_workflowId w \<and> dirtyState w)
   \<or> (\<exists>w'. activeChanged_data c b w = (Fulfilled None, w', [asked (Fulfilled False)])
         \<and> ask w = (Fulfilled False, w')
         \<and> b \<and> workflowId w = getters_workflowId w \<and> dirtyState w)
   \<or> (\<exists>e w'. activeChanged_data c b w = (Rejected e, w', [asked (Rejected e)])
         \<and> ask w = (Rejected e, w')
         \<and> b \<and> workflowId w = getters_workflowId w \<and> dirtyState w)"
  unfolding ask_def asked_def
  by (auto simp: activeChanged_data_def Let_def split: prod.splits settled.splits)

lemma activeChanged_shape:
  "(\<exists>e w1 t1. activeChanged_save c w = (Rejected e, w1, t1)
       \<and> activeChanged c b w = (Rejected e, w1, t1))
   \<or> (\<exists>w1 t1. activeChanged_save c w = (Fulfilled (), w1, t1) \<and> nodesIssuesExist w1
         \<and> activeChanged c b w =
             (Fulfilled (), w1,
              t1 @ [ShowMessage ''Problem activating workflow''
                      ''It is only possible to activate a workflow when all issues on all nodes got resolved!''
                      ''error'' None]))
   \<or> (\<exists>w1 t1 e w2 t2. activeChanged_save c w = (Fulfilled (), w1, t1) \<and> \<not> nodesIssuesExist w1
         \<and> activeChanged_data c b w1 = (Rejected e, w2, t2)
         \<and> activeChanged c b w = (Rejected e, w2, t1 @ t2))
   \<or> (\<exists>w1 t1 w2 t2. activeChanged_save c w = (Fulfilled (), w1, t1) \<and> \<not> nodesIssuesExist w1
         \<and> activeChanged_data c b w1 = (Fulfilled None, w2, t2)
         \<and> activeChanged c b w = (Fulfilled (), w2, t1 @ t2))
   \<or> (\<exists>w1 t1 d w2 t2. activeChanged_save c w = (Fulfilled (), w1, t1) \<and> \<not> nodesIssuesExist w1
         \<and> activeChanged_data c b w1 = (Fulfilled (Some d), w2, t2)
         \<and> activeChanged c b w =
             (Fulfilled (), fst (activeChanged_update c b d w2),
              t1 @ t2 @ snd (activeChanged_update c b d w2)))"
  by (auto simp: activeChanged_def Let_def split: prod.splits option.splits settled.splits)

lemma activeChanged_cases:
  obtains
    (unsaved) e w1 t1 where "activeChanged_save c w = (Rejected e, w1, t1)"
      "activeChanged c b w = (Rejected e, w1, t1)"
  | (blocked) w1 t1 where "activeChanged_save c w = (Fulfilled (), w1, t1)" "nodesIssuesExist w1"
      "activeChanged c b w =
         (Fulfilled (), w1,
          t1 @ [ShowMessage ''Problem activating workflow''
                  ''It is only possible to activate a workflow when all issues on all nodes got resolved!''
                  ''error'' None])"
  | (broken) w1 t1 e w2 t2 where "activeChanged_save c w = (Fulfilled (), w1, t1)"
      "\<not> nodesIssuesExist w1" "activeChanged_data c b w1 = (Rejected e, w2, t2)"
      "activeChanged c b w = (Rejected e, w2, t1 @ t2)"
  | (stopped) w1 t1 w2 t2 where "activeChanged_save c w = (Fulfilled (), w1, t1)"
      "\<not> nodesIssuesExist w1" "activeChanged_data c b w1 = (Fulfilled None, w2, t2)"
      "activeChanged c b w = (Fulfilled (), w2, t1 @ t2)"
  | (sent) w1 t1 d w2 t2 where "activeChanged_save c w = (Fulfilled (), w1, t1)"
      "\<not> nodesIssuesExist w1" "activeChanged_data c b w1 = (Fulfilled (Some d), w2, t2)"
      "activeChanged c b w =
         (Fulfilled (), fst (activeChanged_update c b d w2),
          t1 @ t2 @ snd (activeChanged_update c b d w2))"
  using activeChanged_shape [of c w b] by blast

lemma save_filters:
  "filter is_updateWorkflow (snd (snd (activeChanged_save c w))) = []"
  "filter is_commit (snd (snd (activeChanged_save c w))) = []"
  "filter is_dispatch (snd (snd (activeChanged_save c w))) = []"
  "filter is_setLoading (snd (snd (activeChanged_save c w))) = []"
  "filter is_confirmMessage (snd (snd (activeChanged_save c w))) = []"
  "\<not> list_ex declined (snd (snd (activeChanged_save c w)))"
  "\<not> list_ex is_showMessage (snd (snd (activeChanged_save c w)))"
  "filter is_openModal (snd (snd (activeChanged_save c w))) = []"
  by (cases rule: save_cases [of w c]; simp)+

lemma update_filters:
  "\<exists>r. filter is_updateWorkflow (snd (activeChanged_update c b d w)) =
         [UpdateWorkflow (workflowId w) (d(''active'' \<mapsto> JBool b)) r]"
  "\<not> list_ex declined (snd (activeChanged_update c b d w))"
  "SaveCurrentWorkflow \<notin> set (snd (activeChanged_update c b d w))"
  "\<not> list_ex is_showMessage (snd (activeChanged_update c b d w))"
  "GetWorkflowDataToSave s \<notin> set (snd (activeChanged_update c b d w))"
  by (cases rule: update_cases [of c w d b]; simp add: commit_filters)+

lemma data_filters:
  "filter is_updateWorkflow (snd (snd (activeChanged_data c b w))) = []"
  "filter is_commit (snd (snd (activeChanged_data c b w))) = []"
  "filter is_dispatch (snd (snd (activeChanged_data c b w))) = []"
  "filter is_setLoading (snd (snd (activeChanged_data c b w))) = []"
  "filter is_openModal (snd (snd (activeChanged_data c b w))) = []"
  "SaveCurrentWorkflow \<notin> set (snd (snd (activeChanged_data c b w)))"
  "\<not> list_ex is_showMessage (snd (snd (activeChanged_data c b w)))"
  using data_shape [of c b w] by (elim disjE exE conjE; simp)+



lemma no_update:
  "filter is_updateWorkflow t = [] \<Longrightarrow> UpdateWorkflow i d r \<notin> set t"
  by (auto simp: filter_empty_conv)





subsection \<open>Stages\<close>

lemma stage_commit:
  "sorted_wrt (<) (map stage (activeChanged_commit c b w))
   \<and> (\<forall>e \<in> set (activeChanged_commit c b w). 7 \<le> stage e)"
  by (simp add: activeChanged_commit_def Let_def)

lemma stage_update:
  "sorted_wrt (<) (map stage (snd (activeChanged_update c b d w)))
   \<and> (\<forall>e \<in> set (snd (activeChanged_update c b d w)). 4 \<le> stage e)"
proof (cases rule: update_cases [of c w d b])
  case (rejected e w')
  then show ?thesis by simp
next
  case (fulfilled u w')
  have "\<forall>e \<in> set (activeChanged_commit c b w'). 5 < stage e \<and> 4 < stage e \<and> 4 \<le> stage e"
    using stage_commit [of c b w'] by fastforce
  then show ?thesis using fulfilled stage_commit [of c b w']
    by (simp add: sorted_wrt_append)
qed

lemma stage_data:
  "sorted_wrt (<) (map stage (snd (snd (activeChanged_data c b w))))
   \<and> (\<forall>e \<in> set (snd (snd (activeChanged_data c b w))). 2 \<le> stage e \<and> stage e \<le> 3)"
  using data_shape [of c b w] by (elim disjE exE conjE; simp)

lemma stage_save:
  "sorted_wrt (<) (map stage (snd (snd (activeChanged_save c w))))
   \<and> (\<forall>e \<in> set (snd (snd (activeChanged_save c w))). stage e = 0)"
  by (cases rule: save_cases [of w c]; simp)

subsection \<open>Runs of the examples\<close>

lemmas run_defs =
  activeChanged_def activeChanged_save_def activeChanged_data_def activeChanged_update_def
  activeChanged_commit_def nodesIssuesExist_def dirtyState_def isCurrentWorkflow_def
  truthy_def js_id_def accepting_env_def declining_env_def failing_env_def no_snapshot_env_def
  saved_as_7_def editor_world_def issues_world_def unsaved_world_def listed_world_def

lemma run_accept_editor:
  "snd (snd (activeChanged accepting_env True editor_world)) =
     [ConfirmMessage
        ''When you activate the workflow all currently unsaved changes of the workflow will be saved.''
        ''Activate and save?'' ''warning'' ''Yes, activate and save!'' (Fulfilled True),
      GetWorkflowDataToSave (Fulfilled [''name'' \<mapsto> JString ''My workflow'']),
      SetLoading True,
      UpdateWorkflow (Some ''1'')
        [''name'' \<mapsto> JString ''My workflow'', ''active'' \<mapsto> JBool True] (Fulfilled ()),
      Commit ''setActive'' (JBool True),
      Commit ''setWorkflowActive'' (JString ''1''),
      Dispatch ''ui/openModal'' (Some ''activation''),
      ExternalHooksRun ''workflow.activeChangeCurrent'' (Some ''1'') True,
      TelemetryTrack ''User set workflow active status'' (Some ''1'') True,
      Emit ''workflowActiveChanged'' (Some ''1'') True,
      SetLoading False,
      Dispatch ''settings/fetchPromptsData'' None]"
  by (simp add: run_defs)


lemma run_fail_editor:
  "snd (snd (activeChanged failing_env True editor_world)) =
     [ConfirmMessage
        ''When you activate the workflow all currently unsaved changes of the workflow will be saved.''
        ''Activate and save?'' ''warning'' ''Yes, activate and save!'' (Fulfilled True),
      GetWorkflowDataToSave (Fulfilled [''name'' \<mapsto> JString ''My workflow'']),
      SetLoading True,
      UpdateWorkflow (Some ''1'')
        [''name'' \<mapsto> JString ''My workflow'', ''active'' \<mapsto> JBool True]
        (Rejected (JString ''Network Error'')),
      ShowError (JString ''Network Error'') ''Problem''
        ''There was a problem and the workflow could not be activated:'',
      SetLoading False]"
  by (simp add: run_defs)


section \<open>Properties\<close>

subsection \<open>The computed properties\<close>

text \<open>
  C6. \<open>couldNotBeStarted\<close> is true exactly when the \<open>workflowActive\<close> prop is true and the
  workflow id is not in the store's list of active workflows: it equals
  \<open>workflowActive \<and> \<not> isWorkflowActive\<close> for all four combinations of the two booleans,
  and \<open>isWorkflowActive\<close> is membership of the id in that list.
\<close>

theorem couldNotBeStarted_iff:
  "couldNotBeStarted w = (workflowActive w \<and> \<not> isWorkflowActive w)
   \<and> isWorkflowActive w = (\<exists>i. workflowId w = Some i \<and> i \<in> set (getActiveWorkflows w))
   \<and> couldNotBeStarted w =
       (workflowActive w \<and> \<not> (\<exists>i. workflowId w = Some i \<and> i \<in> set (getActiveWorkflows w)))"
  by (auto simp: couldNotBeStarted_def isWorkflowActive_def split: option.splits)

text \<open>
  C4, as amended. The switch is disabled exactly when the workflow is the one open in the
  editor, its \<open>workflowActive\<close> prop is false and none of its trigger nodes is enabled. For
  a workflow that is not the open one \<open>disabled\<close> is false, whatever its trigger nodes are.
\<close>

theorem disabled_iff:
  "disabled w = (isCurrentWorkflow w \<and> \<not> workflowActive w \<and> \<not> containsTrigger w)
   \<and> containsTrigger w =
       (filter (\<lambda>node. node_disabled node \<noteq> Some True) (workflowTriggerNodes w) \<noteq> [])"
  by (simp add: disabled_def containsTrigger_def)

text \<open>
  C4 as stated fails: workflow 2, listed while workflow 1 is open, has no enabled trigger
  node and is not the open workflow, and its switch is not disabled.
\<close>

theorem disabled_counterexample:
  "\<not> containsTrigger listed_world \<and> \<not> isCurrentWorkflow listed_world
   \<and> \<not> disabled listed_world"
  by (simp add: disabled_def containsTrigger_def isCurrentWorkflow_def listed_world_def)

subsection \<open>Validation\<close>



text \<open>
  C10. With an undefined \<open>workflowId\<close> prop the first event is the call of
  \<open>saveCurrentWorkflow\<close>, it is called once, and the validation check reads the world
  that the save left: the blocking message is shown exactly when the save resolved and
  that world has node issues. With a defined \<open>workflowId\<close> the call never happens.
\<close>

theorem saveCurrentWorkflow_first:
  "(workflowId w = None \<longrightarrow>
      (\<exists>t. snd (snd (activeChanged c newActiveState w)) = SaveCurrentWorkflow # t
            \<and> SaveCurrentWorkflow \<notin> set t
            \<and> list_ex is_showMessage t =
                ((\<exists>saved. fst (saveCurrentWorkflow c w) = Fulfilled saved)
                 \<and> nodesIssuesExist (snd (saveCurrentWorkflow c w)))))
   \<and> (workflowId w \<noteq> None \<longrightarrow>
        SaveCurrentWorkflow \<notin> set (snd (snd (activeChanged c newActiveState w))))"
proof -
  let ?r1 = "fst (activeChanged_save c w)"
  let ?w1 = "fst (snd (activeChanged_save c w))" and ?t1 = "snd (snd (activeChanged_save c w))"
  have rest: "\<exists>t. snd (snd (activeChanged c newActiveState w)) = ?t1 @ t
            \<and> SaveCurrentWorkflow \<notin> set t
            \<and> list_ex is_showMessage t = (?r1 = Fulfilled () \<and> nodesIssuesExist ?w1)"
  proof (cases rule: activeChanged_cases [of c w newActiveState])
    case (unsaved e w1 t1)
    then show ?thesis by simp
  next
    case (blocked w1 t1)
    then show ?thesis by simp
  next
    case (broken w1 t1 e w2 t2)
    have "SaveCurrentWorkflow \<notin> set t2" "\<not> list_ex is_showMessage t2"
      using data_filters(6,7) [of c newActiveState w1] broken(3) by simp_all
    with broken(1,2,4) show ?thesis by simp
  next
    case (stopped w1 t1 w2 t2)
    have "SaveCurrentWorkflow \<notin> set t2" "\<not> list_ex is_showMessage t2"
      using data_filters(6,7) [of c newActiveState w1] stopped(3) by simp_all
    with stopped(1,2,4) show ?thesis by simp
  next
    case (sent w1 t1 d0 w2 t2)
    have "SaveCurrentWorkflow \<notin> set t2" "\<not> list_ex is_showMessage t2"
      using data_filters(6,7) [of c newActiveState w1] sent(3) by simp_all
    with sent(1,2,4) update_filters(3,4) [of c newActiveState d0 w2] show ?thesis by simp
  qed
  show ?thesis
  proof (cases rule: save_cases [of w c])
    case kept
    with rest show ?thesis by auto
  next
    case (saved b w')
    with rest show ?thesis by simp
  next
    case (failed e w')
    with rest show ?thesis by simp
  qed
qed

text \<open>
A new workflow with an issue, and the saved editor workflow.
\<close>

theorem saveCurrentWorkflow_first_witness:
  "workflowId unsaved_world = None
   \<and> fst (saveCurrentWorkflow accepting_env unsaved_world) = Fulfilled True
   \<and> nodesIssuesExist (snd (saveCurrentWorkflow accepting_env unsaved_world))
   \<and> (\<exists>t. snd (snd (activeChanged accepting_env False unsaved_world)) = SaveCurrentWorkflow # t
          \<and> SaveCurrentWorkflow \<notin> set t \<and> list_ex is_showMessage t)
   \<and> workflowId editor_world \<noteq> None
   \<and> SaveCurrentWorkflow \<notin> set (snd (snd (activeChanged accepting_env False editor_world)))"
proof -
  have h: "workflowId unsaved_world = None"
    "fst (saveCurrentWorkflow accepting_env unsaved_world) = Fulfilled True"
    "nodesIssuesExist (snd (saveCurrentWorkflow accepting_env unsaved_world))"
    "workflowId editor_world \<noteq> None"
    by (simp_all add: run_defs)
  from saveCurrentWorkflow_first [of unsaved_world accepting_env False]
    saveCurrentWorkflow_first [of editor_world accepting_env False] h
  show ?thesis by auto
qed

subsection \<open>The request\<close>




text \<open>
  C3. When the \<open>updateWorkflow\<close> request is rejected, the trace ends with the request,
  the error dialog and the reset of the loading flag; the flag is false in the final
  world, the trace holds no store commit, and the method's own promise is fulfilled.
\<close>

theorem activeChanged_update_rejected:
  assumes "UpdateWorkflow i d (Rejected e) \<in> set (snd (snd (activeChanged c newActiveState w)))"
  shows "(\<exists>t. snd (snd (activeChanged c newActiveState w)) =
               t @ [UpdateWorkflow i d (Rejected e),
                    ShowError e ''Problem''
                      (''There was a problem and the workflow could not be ''
                         @ (if newActiveState then ''activated'' else ''deactivated'') @ '':''),
                    SetLoading False])
         \<and> loading (fst (snd (activeChanged c newActiveState w))) = False
         \<and> filter is_commit (snd (snd (activeChanged c newActiveState w))) = []
         \<and> fst (activeChanged c newActiveState w) = Fulfilled ()"
proof -
  let ?U = "UpdateWorkflow i d (Rejected e)"
  let ?tr = "snd (snd (activeChanged c newActiveState w))"
  note sf = save_filters [of c w]
  show ?thesis
  proof (cases rule: activeChanged_cases [of c w newActiveState])
    case (unsaved e' w1 t1)
    have "?U \<notin> set ?tr" unfolding unsaved(2) using sf(1) unsaved(1) no_update by simp
    with assms show ?thesis by simp
  next
    case (blocked w1 t1)
    have "?U \<notin> set ?tr" unfolding blocked(3) using sf(1) blocked(1) no_update by simp
    with assms show ?thesis by simp
  next
    case (broken w1 t1 e' w2 t2)
    have "?U \<notin> set t1" "?U \<notin> set t2"
      using sf(1) broken(1) data_filters(1) [of c newActiveState w1] broken(3) no_update
      by simp_all
    then have "?U \<notin> set ?tr" unfolding broken(4) by simp
    with assms show ?thesis by simp
  next
    case (stopped w1 t1 w2 t2)
    have "?U \<notin> set t1" "?U \<notin> set t2"
      using sf(1) stopped(1) data_filters(1) [of c newActiveState w1] stopped(3) no_update
      by simp_all
    then have "?U \<notin> set ?tr" unfolding stopped(4) by simp
    with assms show ?thesis by simp
  next
    case (sent w1 t1 d0 w2 t2)
    have t1: "?U \<notin> set t1" "filter is_commit t1 = []"
      using sf(1,2) sent(1) no_update by simp_all
    have t2: "?U \<notin> set t2" "filter is_commit t2 = []"
      using data_filters(1,2) [of c newActiveState w1] sent(3) no_update by simp_all
    from assms t1(1) t2(1)
    have mem: "?U \<in> set (snd (activeChanged_update c newActiveState d0 w2))"
      unfolding sent(4) by simp
    show ?thesis
    proof (cases rule: update_cases [of c w2 d0 newActiveState])
      case (rejected e' w')
      from mem have eq: "i = workflowId w2" "d = d0(''active'' \<mapsto> JBool newActiveState)" "e = e'"
        unfolding rejected(2) by simp_all
      have tr: "?tr =
          (t1 @ t2 @ [SetLoading True]) @ [?U,
                    ShowError e ''Problem''
                      (''There was a problem and the workflow could not be ''
                         @ (if newActiveState then ''activated'' else ''deactivated'') @ '':''),
                    SetLoading False]"
        unfolding sent(4) rejected(2) eq by simp
      have lo: "loading (fst (snd (activeChanged c newActiveState w))) = False"
        unfolding sent(4) rejected(2) by simp
      have co: "filter is_commit ?tr = []"
        unfolding tr using t1(2) t2(2) by simp
      have ou: "fst (activeChanged c newActiveState w) = Fulfilled ()"
        unfolding sent(4) by simp
      from tr lo co ou show ?thesis by blast
    next
      case (fulfilled u w')
      have "?U \<notin> set (snd (activeChanged_update c newActiveState d0 w2))"
        unfolding fulfilled(2) using commit_filters(6) [of i d "Rejected e" c newActiveState w']
        by simp
      with mem show ?thesis by simp
    qed
  qed
qed

text \<open>
Activating the open workflow against a server that rejects the update.
\<close>

theorem activeChanged_update_rejected_witness:
  "UpdateWorkflow (Some ''1'')
       [''name'' \<mapsto> JString ''My workflow'', ''active'' \<mapsto> JBool True]
       (Rejected (JString ''Network Error''))
     \<in> set (snd (snd (activeChanged failing_env True editor_world)))
   \<and> (\<exists>t. snd (snd (activeChanged failing_env True editor_world)) =
           t @ [UpdateWorkflow (Some ''1'')
                  [''name'' \<mapsto> JString ''My workflow'', ''active'' \<mapsto> JBool True]
                  (Rejected (JString ''Network Error'')),
                ShowError (JString ''Network Error'') ''Problem''
                  ''There was a problem and the workflow could not be activated:'',
                SetLoading False])
   \<and> loading (fst (snd (activeChanged failing_env True editor_world))) = False
   \<and> filter is_commit (snd (snd (activeChanged failing_env True editor_world))) = []
   \<and> fst (activeChanged failing_env True editor_world) = Fulfilled ()"
proof -
  have h: "UpdateWorkflow (Some ''1'')
       [''name'' \<mapsto> JString ''My workflow'', ''active'' \<mapsto> JBool True]
       (Rejected (JString ''Network Error''))
     \<in> set (snd (snd (activeChanged failing_env True editor_world)))"
    by (simp add: run_fail_editor)
  from activeChanged_update_rejected [OF h] h show ?thesis by simp
qed



subsection \<open>After the request\<close>

text \<open>
  C8, as amended. After a successful activation the workflow-active dialog is opened
  exactly when the workflow is the one open in the editor (\<open>isCurrentWorkflow\<close>) and the
  local storage flag is absent or the empty string; it is opened once, with the modal key.
  When the workflow is not the open one, or the flag holds a non-empty string, it is not
  opened.
\<close>

theorem activation_modal:
  assumes "UpdateWorkflow i d (Fulfilled u) \<in> set (snd (snd (activeChanged c True w)))"
  shows "filter is_openModal (snd (snd (activeChanged c True w))) =
           (if isCurrentWorkflow (fst (snd (activeChanged c True w)))
               \<and> \<not> truthy (localStorage (fst (snd (activeChanged c True w)))
                              (LOCAL_STORAGE_ACTIVATION_FLAG c))
            then [Dispatch ''ui/openModal'' (Some (WORKFLOW_ACTIVE_MODAL_KEY c))]
            else [])"
proof -
  let ?U = "UpdateWorkflow i d (Fulfilled u)"
  let ?tr = "snd (snd (activeChanged c True w))"
  note sf = save_filters [of c w]
  show ?thesis
  proof (cases rule: activeChanged_cases [of c w True])
    case (unsaved e' w1 t1)
    have "?U \<notin> set ?tr" unfolding unsaved(2) using sf(1) unsaved(1) no_update by simp
    with assms show ?thesis by simp
  next
    case (blocked w1 t1)
    have "?U \<notin> set ?tr" unfolding blocked(3) using sf(1) blocked(1) no_update by simp
    with assms show ?thesis by simp
  next
    case (broken w1 t1 e' w2 t2)
    have "?U \<notin> set t1" "?U \<notin> set t2"
      using sf(1) broken(1) data_filters(1) [of c True w1] broken(3) no_update
      by simp_all
    then have "?U \<notin> set ?tr" unfolding broken(4) by simp
    with assms show ?thesis by simp
  next
    case (stopped w1 t1 w2 t2)
    have "?U \<notin> set t1" "?U \<notin> set t2"
      using sf(1) stopped(1) data_filters(1) [of c True w1] stopped(3) no_update
      by simp_all
    then have "?U \<notin> set ?tr" unfolding stopped(4) by simp
    with assms show ?thesis by simp
  next
    case (sent w1 t1 d0 w2 t2)
    have t1: "?U \<notin> set t1" "filter is_openModal t1 = []"
      using sf(1,8) sent(1) no_update by simp_all
    have t2: "?U \<notin> set t2" "filter is_openModal t2 = []"
      using data_filters(1,5) [of c True w1] sent(3) no_update by simp_all
    from assms t1(1) t2(1)
    have mem: "?U \<in> set (snd (activeChanged_update c True d0 w2))"
      unfolding sent(4) by simp
    show ?thesis
    proof (cases rule: update_cases [of c w2 d0 True])
      case (rejected e' w')
      have "?U \<notin> set (snd (activeChanged_update c True d0 w2))"
        unfolding rejected(2) by simp
      with mem show ?thesis by simp
    next
      case (fulfilled u' w')
      show ?thesis
        unfolding sent(4) fulfilled(2) using t1(2) t2(2) commit_openModal [of c True w']
        by simp
    qed
  qed
qed

text \<open>
The open workflow, activated for the first time: the dialog is opened.
\<close>

theorem activation_modal_witness:
  "UpdateWorkflow (Some ''1'')
       [''name'' \<mapsto> JString ''My workflow'', ''active'' \<mapsto> JBool True] (Fulfilled ())
     \<in> set (snd (snd (activeChanged accepting_env True editor_world)))
   \<and> isCurrentWorkflow (fst (snd (activeChanged accepting_env True editor_world)))
   \<and> \<not> truthy (localStorage (fst (snd (activeChanged accepting_env True editor_world)))
                  (LOCAL_STORAGE_ACTIVATION_FLAG accepting_env))
   \<and> filter is_openModal (snd (snd (activeChanged accepting_env True editor_world))) =
       [Dispatch ''ui/openModal'' (Some (WORKFLOW_ACTIVE_MODAL_KEY accepting_env))]"
proof -
  have h: "UpdateWorkflow (Some ''1'')
       [''name'' \<mapsto> JString ''My workflow'', ''active'' \<mapsto> JBool True] (Fulfilled ())
     \<in> set (snd (snd (activeChanged accepting_env True editor_world)))"
    by (simp add: run_accept_editor)
  have c: "isCurrentWorkflow (fst (snd (activeChanged accepting_env True editor_world)))"
    "\<not> truthy (localStorage (fst (snd (activeChanged accepting_env True editor_world)))
                  (LOCAL_STORAGE_ACTIVATION_FLAG accepting_env))"
    by (simp_all add: run_defs)
  from activation_modal [OF h] h c show ?thesis by simp
qed

text \<open>
  C8 as stated fails: workflow 2 is activated from a list while workflow 1 is open, the
  flag is absent, the update succeeds, and no dialog is opened.
\<close>

theorem activation_modal_counterexample:
  "localStorage listed_world (LOCAL_STORAGE_ACTIVATION_FLAG accepting_env) = None
   \<and> snd (snd (activeChanged accepting_env True listed_world)) =
       [SetLoading True,
        UpdateWorkflow (Some ''2'') [''active'' \<mapsto> JBool True] (Fulfilled ()),
        Commit ''setWorkflowActive'' (JString ''2''),
        ExternalHooksRun ''workflow.activeChange'' (Some ''2'') True,
        TelemetryTrack ''User set workflow active status'' (Some ''2'') True,
        Emit ''workflowActiveChanged'' (Some ''2'') True,
        SetLoading False,
        Dispatch ''settings/fetchPromptsData'' None]"
  by (simp add: run_defs)

text \<open>
  C7, as amended. The events of a run are in the order of \<open>stage\<close>, each stage at most
  once: the save of a workflow without an id, the validation message, the confirmation
  prompt, the retrieval of the data to save, the loading flag set, the
  \<open>updateWorkflow\<close> call, the error dialog, the commits (\<open>setActive\<close> first), the
  dialog, the hook, the telemetry record, the component event, the loading flag reset,
  the dispatch of \<open>settings/fetchPromptsData\<close>.
\<close>

theorem stage_sorted:
  "sorted_wrt (<) (map stage (snd (snd (activeChanged c newActiveState w))))"
proof (cases rule: activeChanged_cases [of c w newActiveState])
  case (unsaved e w1 t1)
  then show ?thesis using stage_save [of c w] by simp
next
  case (blocked w1 t1)
  then show ?thesis using stage_save [of c w] by (simp add: sorted_wrt_append)
next
  case (broken w1 t1 e w2 t2)
  have "sorted_wrt (<) (map stage (t1 @ t2))"
    using stage_save [of c w] stage_data [of c newActiveState w1] broken(1,3)
    by (fastforce simp: sorted_wrt_append)
  with broken(4) show ?thesis by simp
next
  case (stopped w1 t1 w2 t2)
  have "sorted_wrt (<) (map stage (t1 @ t2))"
    using stage_save [of c w] stage_data [of c newActiveState w1] stopped(1,3)
    by (fastforce simp: sorted_wrt_append)
  with stopped(4) show ?thesis by simp
next
  case (sent w1 t1 d w2 t2)
  have "sorted_wrt (<) (map stage (t1 @ t2 @ snd (activeChanged_update c newActiveState d w2)))"
    using stage_save [of c w] stage_data [of c newActiveState w1] sent(1,3)
      stage_update [of c newActiveState d w2]
    by (fastforce simp: sorted_wrt_append)
  with sent(4) show ?thesis by simp
qed

text \<open>
  C7 as stated fails: for a new workflow with an issue on a node, the workflow is saved
  before the validation check shows its message.
\<close>

theorem order_counterexample:
  "snd (snd (activeChanged accepting_env True unsaved_world)) =
     [SaveCurrentWorkflow,
      ShowMessage ''Problem activating workflow''
        ''It is only possible to activate a workflow when all issues on all nodes got resolved!''
        ''error'' None]"
  by (simp add: run_defs)

subsection \<open>displayActivationError\<close>

text \<open>
  C9. The three outcomes of the lookup give three messages: a rejected lookup gives the
  generic message, a lookup that resolves to \<open>undefined\<close> gives the message that no error
  was found, which is a different string, and a lookup that resolves to error data gives
  the recorded message. In every case one warning dialog is shown and the method's own
  promise is fulfilled.
\<close>

theorem displayActivationError_outcomes:
  "(case fst (getActivationError c (workflowId w) w) of
      Rejected e \<Rightarrow>
        snd (snd (displayActivationError c w)) =
          [GetActivationError (workflowId w) (Rejected e),
           ShowMessage ''Problem activating workflow''
             ''Sorry there was a problem requesting the error'' ''warning'' (Some 0)]
    | Fulfilled None \<Rightarrow>
        snd (snd (displayActivationError c w)) =
          [GetActivationError (workflowId w) (Fulfilled None),
           ShowMessage ''Problem activating workflow''
             ''Sorry there was a problem. No error got found to display.'' ''warning'' (Some 0)]
    | Fulfilled (Some errorData) \<Rightarrow>
        snd (snd (displayActivationError c w)) =
          [GetActivationError (workflowId w) (Fulfilled (Some errorData)),
           ShowMessage ''Problem activating workflow''
             (''The following error occurred on workflow activation:<br /><i>''
                @ error_message errorData @ ''</i>'')
             ''warning'' (Some 0)])
   \<and> length (filter is_showMessage (snd (snd (displayActivationError c w)))) = 1
   \<and> fst (displayActivationError c w) = Fulfilled ()
   \<and> ''Sorry there was a problem requesting the error''
        \<noteq> ''Sorry there was a problem. No error got found to display.''"
  by (cases "getActivationError c (workflowId w) w")
     (simp add: displayActivationError_def split: settled.splits option.splits)

text \<open>
A lookup that is rejected.
\<close>

theorem displayActivationError_outcomes_witness:
  "fst (getActivationError failing_env (workflowId editor_world) editor_world)
     = Rejected (JString ''Network Error'')
   \<and> snd (snd (displayActivationError failing_env editor_world)) =
       [GetActivationError (Some ''1'') (Rejected (JString ''Network Error'')),
        ShowMessage ''Problem activating workflow''
          ''Sorry there was a problem requesting the error'' ''warning'' (Some 0)]
   \<and> fst (displayActivationError failing_env editor_world) = Fulfilled ()"
proof -
  have h: "fst (getActivationError failing_env (workflowId editor_world) editor_world)
     = Rejected (JString ''Network Error'')"
    by (simp add: failing_env_def accepting_env_def)
  have i: "workflowId editor_world = Some ''1''" by (simp add: editor_world_def)
  from displayActivationError_outcomes [of failing_env editor_world] h i
  show ?thesis by simp
qed

end
